theory Spec2Isabelle
  imports Complex_Main
begin

section \<open>JavaScript numbers\<close>

text \<open>
  A JavaScript number is modelled as a real number, or one of the three special values
  \<open>Infinity\<close>, \<open>-Infinity\<close> and \<open>NaN\<close>. A finite value stands for the decimal number
  the program prints or parses, and the operations below are exact on finite values (the
  overflow of IEEE doubles is not modelled). The rounding of doubles is modelled where a
  result depends on it, in the shift of Component A: see \<open>fl_ok\<close>. The special values
  follow the IEEE rules the source can run into: a division by zero, \<open>0 / 0\<close>,
  \<open>Infinity * 0\<close>, and comparisons with \<open>NaN\<close>. The sign of zero is not modelled: the
  only divisor of the source is \<open>1 + changeRate\<close>, which is never \<open>-0\<close>.
\<close>

datatype jsnum = Fin real | PInf | NInf | NaN

fun js_neg :: "jsnum \<Rightarrow> jsnum" where
  "js_neg (Fin x) = Fin (- x)"
| "js_neg PInf = NInf"
| "js_neg NInf = PInf"
| "js_neg NaN = NaN"

fun js_add :: "jsnum \<Rightarrow> jsnum \<Rightarrow> jsnum" where
  "js_add (Fin x) (Fin y) = Fin (x + y)"
| "js_add NaN _ = NaN"
| "js_add _ NaN = NaN"
| "js_add PInf NInf = NaN"
| "js_add NInf PInf = NaN"
| "js_add PInf _ = PInf"
| "js_add _ PInf = PInf"
| "js_add NInf _ = NInf"
| "js_add _ NInf = NInf"

definition js_sub :: "jsnum \<Rightarrow> jsnum \<Rightarrow> jsnum" where
  "js_sub a b = js_add a (js_neg b)"

fun js_mul :: "jsnum \<Rightarrow> jsnum \<Rightarrow> jsnum" where
  "js_mul (Fin x) (Fin y) = Fin (x * y)"
| "js_mul NaN _ = NaN"
| "js_mul _ NaN = NaN"
| "js_mul PInf (Fin y) = (if y = 0 then NaN else if 0 < y then PInf else NInf)"
| "js_mul NInf (Fin y) = (if y = 0 then NaN else if 0 < y then NInf else PInf)"
| "js_mul (Fin x) PInf = (if x = 0 then NaN else if 0 < x then PInf else NInf)"
| "js_mul (Fin x) NInf = (if x = 0 then NaN else if 0 < x then NInf else PInf)"
| "js_mul PInf PInf = PInf"
| "js_mul PInf NInf = NInf"
| "js_mul NInf PInf = NInf"
| "js_mul NInf NInf = PInf"

fun js_div :: "jsnum \<Rightarrow> jsnum \<Rightarrow> jsnum" where
  "js_div (Fin x) (Fin y) =
     (if y \<noteq> 0 then Fin (x / y)
      else if x = 0 then NaN else if 0 < x then PInf else NInf)"
| "js_div NaN _ = NaN"
| "js_div _ NaN = NaN"
| "js_div (Fin x) PInf = Fin 0"
| "js_div (Fin x) NInf = Fin 0"
| "js_div PInf (Fin y) = (if 0 \<le> y then PInf else NInf)"
| "js_div NInf (Fin y) = (if 0 \<le> y then NInf else PInf)"
| "js_div PInf PInf = NaN"
| "js_div PInf NInf = NaN"
| "js_div NInf PInf = NaN"
| "js_div NInf NInf = NaN"

fun js_abs :: "jsnum \<Rightarrow> jsnum" where
  "js_abs (Fin x) = Fin \<bar>x\<bar>"
| "js_abs PInf = PInf"
| "js_abs NInf = PInf"
| "js_abs NaN = NaN"

text \<open>\<open>a < b\<close>: false as soon as one side is \<open>NaN\<close>.\<close>

fun js_lt :: "jsnum \<Rightarrow> jsnum \<Rightarrow> bool" where
  "js_lt (Fin x) (Fin y) = (x < y)"
| "js_lt NaN _ = False"
| "js_lt _ NaN = False"
| "js_lt PInf _ = False"
| "js_lt _ NInf = False"
| "js_lt NInf _ = True"
| "js_lt _ PInf = True"

text \<open>\<open>a >= b\<close>, again false on \<open>NaN\<close>.\<close>

fun js_ge :: "jsnum \<Rightarrow> jsnum \<Rightarrow> bool" where
  "js_ge (Fin x) (Fin y) = (y \<le> x)"
| "js_ge NaN _ = False"
| "js_ge _ NaN = False"
| "js_ge PInf _ = True"
| "js_ge _ NInf = True"
| "js_ge NInf _ = False"
| "js_ge _ PInf = False"

fun js_isNaN :: "jsnum \<Rightarrow> bool" where
  "js_isNaN NaN = True"
| "js_isNaN _ = False"

text \<open>\<open>Math.max\<close> and \<open>Math.min\<close> of two arguments.\<close>

fun js_max :: "jsnum \<Rightarrow> jsnum \<Rightarrow> jsnum" where
  "js_max (Fin x) (Fin y) = Fin (max x y)"
| "js_max NaN _ = NaN"
| "js_max _ NaN = NaN"
| "js_max PInf _ = PInf"
| "js_max _ PInf = PInf"
| "js_max NInf b = b"
| "js_max a NInf = a"

fun js_min :: "jsnum \<Rightarrow> jsnum \<Rightarrow> jsnum" where
  "js_min (Fin x) (Fin y) = Fin (min x y)"
| "js_min NaN _ = NaN"
| "js_min _ NaN = NaN"
| "js_min NInf _ = NInf"
| "js_min _ NInf = NInf"
| "js_min PInf b = b"
| "js_min a PInf = a"

text \<open>
  \<open>Number(x.toFixed(2))\<close>. \<open>toFixed(2)\<close> prints the integer \<open>n\<close> for which \<open>n / 100\<close>
  is closest to \<open>x\<close>, the larger one on a tie, after taking the sign off a negative
  \<open>x\<close>, and \<open>Number\<close> reads the printed decimal back. From \<open>10^21\<close> on \<open>toFixed\<close>
  prints the number itself: a double that large is an integer, which the rounding below
  leaves as it is. The special values are printed by name and read back unchanged.
\<close>

definition round2 :: "real \<Rightarrow> real" where
  "round2 x =
     (if x < 0 then - (real_of_int \<lfloor>- x * 100 + 1 / 2\<rfloor> / 100)
      else real_of_int \<lfloor>x * 100 + 1 / 2\<rfloor> / 100)"

fun toFixed2 :: "jsnum \<Rightarrow> jsnum" where
  "toFixed2 (Fin x) = Fin (round2 x)"
| "toFixed2 PInf = PInf"
| "toFixed2 NInf = NInf"
| "toFixed2 NaN = NaN"

text \<open>
  Subtraction and addition of doubles. The shift of Component A computes
  \<open>realVixValue - lastMockVal\<close> and \<open>d.VIX + diff\<close> on doubles and prints the sum with
  two decimals, so an error in the last bit of the sum decides the second decimal when the
  exact sum lies on a tie. The two operations are therefore parameters \<open>fl_sub\<close> and
  \<open>fl_add\<close> of the model: \<open>fl_add x y\<close> is the value of the double the program computes
  from the doubles nearest to \<open>x\<close> and \<open>y\<close>. Rounding to nearest has a relative error of
  at most \<open>2^-53\<close>, in each operand and in the result, which \<open>fl_ok\<close> bounds with room to
  spare. On the special values the operations are those of \<open>js_sub\<close> and \<open>js_add\<close>.
\<close>

definition fl_tol :: real where
  "fl_tol = 1 / 2 ^ 50"

definition fl_ok :: "(real \<Rightarrow> real \<Rightarrow> real) \<Rightarrow> (real \<Rightarrow> real \<Rightarrow> real) \<Rightarrow> bool" where
  "fl_ok fl_sub fl_add =
     (\<forall>x y. \<bar>fl_sub x y - (x - y)\<bar> \<le> fl_tol * (\<bar>x\<bar> + \<bar>y\<bar>) \<and>
            \<bar>fl_add x y - (x + y)\<bar> \<le> fl_tol * (\<bar>x\<bar> + \<bar>y\<bar>))"

fun js_fsub :: "(real \<Rightarrow> real \<Rightarrow> real) \<Rightarrow> jsnum \<Rightarrow> jsnum \<Rightarrow> jsnum" where
  "js_fsub fl_sub (Fin x) (Fin y) = Fin (fl_sub x y)"
| "js_fsub fl_sub a b = js_sub a b"

fun js_fadd :: "(real \<Rightarrow> real \<Rightarrow> real) \<Rightarrow> jsnum \<Rightarrow> jsnum \<Rightarrow> jsnum" where
  "js_fadd fl_add (Fin x) (Fin y) = Fin (fl_add x y)"
| "js_fadd fl_add a b = js_add a b"

section \<open>Component A: the yearly volatility series\<close>

text \<open>
  \<open>generateMockVixData\<close> of the market dashboard. The two inputs the source reads from
  its environment are parameters: \<open>rnd i\<close> is the value of the \<open>i\<close>-th call of
  \<open>Math.random()\<close> (one call per iteration), and \<open>today\<close> is the current calendar day,
  counted in days. A sample keeps its day and its value; the two labels \<open>dateStr\<close> and
  \<open>month\<close> of the source are renderings of the same day and are left out.
\<close>

record vix_sample =
  timestamp :: int
  VIX :: jsnum

function vix_loop ::
  "(nat \<Rightarrow> real) \<Rightarrow> int \<Rightarrow> nat \<Rightarrow> jsnum \<Rightarrow> vix_sample list \<Rightarrow> vix_sample list" where
  "vix_loop rnd today i baseValue data =
     (if i < 365 then
        let date = today - int (364 - i);
            change = js_mul (js_sub (Fin (rnd i)) (Fin 0.5)) (Fin 2);
            baseValue1 = js_add baseValue change;
            baseValue2 = js_add baseValue1 (js_mul (js_sub (Fin 15) baseValue1) (Fin 0.02));
            baseValue3 = js_max (Fin 10) (js_min (Fin 45) baseValue2)
        in vix_loop rnd today (i + 1) baseValue3
             (data @ [\<lparr>timestamp = date, VIX = toFixed2 baseValue3\<rparr>])
      else data)"
  by pat_completeness auto
termination
  by (relation "measure (\<lambda>(rnd, today, i, baseValue, data). 365 - i)") auto

declare vix_loop.simps [simp del]

definition generateMockVixData :: "(nat \<Rightarrow> real) \<Rightarrow> int \<Rightarrow> vix_sample list" where
  "generateMockVixData rnd today = vix_loop rnd today 0 (Fin 13.5) []"

text \<open>
  The memoised \<open>chartData\<close> of \<open>MarketDashboard\<close>: \<open>realVixValue\<close> is \<open>null\<close>
  (\<open>None\<close>) or a number, which may be \<open>NaN\<close>. The source reads
  \<open>data[data.length - 1]\<close>, which is \<open>last data\<close> on the 365 samples the generator
  always returns (\<open>length_generateMockVixData\<close> below). The subtraction and the addition
  of the shift are the double operations \<open>fl_sub\<close> and \<open>fl_add\<close>.
\<close>

definition MarketDashboard_chartData ::
  "(real \<Rightarrow> real \<Rightarrow> real) \<Rightarrow> (real \<Rightarrow> real \<Rightarrow> real) \<Rightarrow>
   (nat \<Rightarrow> real) \<Rightarrow> int \<Rightarrow> jsnum option \<Rightarrow> vix_sample list" where
  "MarketDashboard_chartData fl_sub fl_add rnd today realVixValue =
     (let data = generateMockVixData rnd today in
      case realVixValue of
        None \<Rightarrow> data
      | Some v \<Rightarrow>
          if \<not> js_isNaN v then
            let lastMockVal = VIX (last data);
                diff = js_fsub fl_sub v lastMockVal
            in map (\<lambda>d. d\<lparr>VIX := js_max (Fin 0) (toFixed2 (js_fadd fl_add (VIX d) diff))\<rparr>)
                 data
          else data)"

section \<open>Component B: the monthly price series\<close>

text \<open>
  The memoised \<open>chartData\<close> of \<open>StockDetailModal\<close>, with \<open>Math.random()\<close> and the
  current day as parameters again. A sample keeps the day (the source stores its
  rendering as a string) and the price.
\<close>

record stock_sample =
  date :: int
  price :: jsnum

definition days :: nat where
  "days = 30"

definition volatility :: jsnum where
  "volatility = Fin 0.02"

text \<open>The estimate of the price 30 days ago, with its fallback for a very small change.\<close>

definition startPrice :: "jsnum \<Rightarrow> jsnum \<Rightarrow> jsnum" where
  "startPrice currentPrice changeRate =
     (let price0 = js_div currentPrice (js_add (Fin 1) changeRate)
      in if js_lt (js_abs changeRate) (Fin 0.001) then js_mul currentPrice (Fin 0.95)
         else price0)"

text \<open>
  The value of \<open>dailyPrice\<close> in iteration \<open>i\<close>, before it is rounded and stored. The
  local variable \<open>price\<close> of the source is \<open>price0\<close> here, apart from the field \<open>price\<close>
  of a sample.
\<close>

definition dailyPrice :: "(nat \<Rightarrow> real) \<Rightarrow> jsnum \<Rightarrow> jsnum \<Rightarrow> nat \<Rightarrow> jsnum" where
  "dailyPrice rnd currentPrice price0 i =
     (let progress = js_div (Fin (real i)) (Fin (real (days - 1)));
          targetTrend =
            js_add (js_mul currentPrice progress) (js_mul price0 (js_sub (Fin 1) progress));
          randomFluctuation =
            js_mul (js_mul targetTrend (js_sub (Fin (rnd i)) (Fin 0.5))) volatility;
          dailyPrice = js_add targetTrend randomFluctuation
      in if i = days - 1 then currentPrice else dailyPrice)"

function stock_loop ::
  "(nat \<Rightarrow> real) \<Rightarrow> int \<Rightarrow> jsnum \<Rightarrow> jsnum \<Rightarrow> nat \<Rightarrow> stock_sample list \<Rightarrow> stock_sample list"
  where
  "stock_loop rnd today currentPrice price0 i data =
     (if i < days then
        stock_loop rnd today currentPrice price0 (i + 1)
          (data @ [\<lparr>date = today - int (days - 1 - i),
                    price = toFixed2 (dailyPrice rnd currentPrice price0 i)\<rparr>])
      else data)"
  by pat_completeness auto
termination
  by (relation "measure (\<lambda>(rnd, today, currentPrice, price0, i, data). days - i)") auto

declare stock_loop.simps [simp del]

definition StockDetailModal_chartData ::
  "(nat \<Rightarrow> real) \<Rightarrow> int \<Rightarrow> jsnum \<Rightarrow> jsnum \<Rightarrow> stock_sample list" where
  "StockDetailModal_chartData rnd today currentPrice changeRate =
     stock_loop rnd today currentPrice (startPrice currentPrice changeRate) 0 []"

section \<open>Parsing the display strings\<close>

text \<open>
  \<open>parseFloat\<close> on a string of digits, signs and decimal points, which is all its three
  callers pass it (each strips every other character first): an optional sign, digits,
  and an optional point with more digits; the longest such prefix is read, and the result
  is \<open>NaN\<close> when that prefix has no digit.
\<close>

definition isDigit :: "char \<Rightarrow> bool" where
  "isDigit c = (c \<in> set ''0123456789'')"

definition digitsValue :: "string \<Rightarrow> nat" where
  "digitsValue ds = foldl (\<lambda>a c. 10 * a + (of_char c - 48)) 0 ds"

definition parseUnsigned :: "string \<Rightarrow> jsnum" where
  "parseUnsigned s =
     (let ip = takeWhile isDigit s;
          rest = dropWhile isDigit s;
          fp = (case rest of c # t \<Rightarrow> if c = CHR ''.'' then takeWhile isDigit t else []
                | [] \<Rightarrow> [])
      in if ip = [] \<and> fp = [] then NaN
         else Fin (real (digitsValue ip) + real (digitsValue fp) / 10 ^ length fp))"

definition parseFloat :: "string \<Rightarrow> jsnum" where
  "parseFloat s =
     (case s of
        c # t \<Rightarrow>
          if c = CHR ''-'' then js_neg (parseUnsigned t)
          else if c = CHR ''+'' then parseUnsigned t
          else parseUnsigned s
      | [] \<Rightarrow> NaN)"

text \<open>\<open>realVixItem ? parseFloat(realVixItem.value.replace(/[^0-9.]/g, '')) : null\<close>\<close>

definition realVixValue :: "string option \<Rightarrow> jsnum option" where
  "realVixValue realVixItem =
     (case realVixItem of
        Some v \<Rightarrow> Some (parseFloat (filter (\<lambda>c. c \<in> set ''0123456789.'') v))
      | None \<Rightarrow> None)"

text \<open>\<open>parseFloat(priceStr.replace(/[^0-9.-]/g, '')) || 0\<close>: \<open>NaN\<close> and zero are falsy.\<close>

definition parsePrice :: "string \<Rightarrow> jsnum" where
  "parsePrice priceStr =
     (let v = parseFloat (filter (\<lambda>c. c \<in> set ''0123456789.-'') priceStr)
      in if js_isNaN v \<or> v = Fin 0 then Fin 0 else v)"

definition parseChange :: "string \<Rightarrow> jsnum" where
  "parseChange changeStr =
     (let isNegative = (CHR ''-'' \<in> set changeStr);
          val = parseFloat (filter (\<lambda>c. c \<in> set ''0123456789.'') changeStr)
      in js_div (if isNegative then js_neg val else val) (Fin 100))"

section \<open>Closed forms of the two loops\<close>

text \<open>
  The value of \<open>baseValue\<close> after \<open>n\<close> iterations of the loop of
  \<open>generateMockVixData\<close>, as a real number, and the sample iteration \<open>i\<close> pushes.
\<close>

definition vix_step :: "real \<Rightarrow> real \<Rightarrow> real" where
  "vix_step b r =
     max 10 (min 45 (b + (r - 0.5) * 2 + (15 - (b + (r - 0.5) * 2)) * 0.02))"

fun baseValue_at :: "(nat \<Rightarrow> real) \<Rightarrow> nat \<Rightarrow> real" where
  "baseValue_at rnd 0 = 13.5"
| "baseValue_at rnd (Suc n) = vix_step (baseValue_at rnd n) (rnd n)"

definition mock_sample :: "(nat \<Rightarrow> real) \<Rightarrow> int \<Rightarrow> nat \<Rightarrow> vix_sample" where
  "mock_sample rnd today i =
     \<lparr>timestamp = today - int (364 - i), VIX = Fin (round2 (baseValue_at rnd (Suc i)))\<rparr>"

text \<open>The value of sample \<open>i\<close> after the shift by a finite anchor \<open>a\<close>.\<close>

definition shifted_value ::
  "(real \<Rightarrow> real \<Rightarrow> real) \<Rightarrow> (real \<Rightarrow> real \<Rightarrow> real) \<Rightarrow>
   (nat \<Rightarrow> real) \<Rightarrow> real \<Rightarrow> nat \<Rightarrow> real" where
  "shifted_value fl_sub fl_add rnd a i =
     max 0 (round2 (fl_add (round2 (baseValue_at rnd (Suc i)))
                           (fl_sub a (round2 (baseValue_at rnd 365)))))"

definition stock_sample_at ::
  "(nat \<Rightarrow> real) \<Rightarrow> int \<Rightarrow> jsnum \<Rightarrow> jsnum \<Rightarrow> nat \<Rightarrow> stock_sample" where
  "stock_sample_at rnd today currentPrice price0 i =
     \<lparr>date = today - int (days - 1 - i),
      price = toFixed2 (dailyPrice rnd currentPrice price0 i)\<rparr>"

section \<open>The walk as the specification words it\<close>

text \<open>
  The recurrence of the specification, to compare with the loop of the source: the value
  starts at the baseline 13.5; a day adds its perturbation, moves the value 2 percent of
  the distance towards the target 15, and clamps it to the range from 10 to 45. The
  perturbation the source draws on day \<open>i\<close> is \<open>change_at rnd i\<close>.
\<close>

definition spec_day :: "real \<Rightarrow> real \<Rightarrow> real" where
  "spec_day v p =
     (let added = v + p;
          reverted = added + 0.02 * (15 - added)
      in if reverted < 10 then 10 else if 45 < reverted then 45 else reverted)"

fun spec_walk :: "(nat \<Rightarrow> real) \<Rightarrow> nat \<Rightarrow> real" where
  "spec_walk p 0 = 13.5"
| "spec_walk p (Suc d) = spec_day (spec_walk p d) (p d)"

definition change_at :: "(nat \<Rightarrow> real) \<Rightarrow> nat \<Rightarrow> real" where
  "change_at rnd i = (rnd i - 0.5) * 2"

section \<open>Concrete random sources\<close>

text \<open>\<open>Math.random()\<close> returning 0 at every call.\<close>

definition draws_zero :: "nat \<Rightarrow> real" where
  "draws_zero i = 0"


text \<open>\<open>Math.random()\<close> returning 0.5 at every call.\<close>

definition draws_half :: "nat \<Rightarrow> real" where
  "draws_half i = 0.5"

section \<open>Concrete double operations\<close>

text \<open>The operations without a rounding error.\<close>

definition exact_sub :: "real \<Rightarrow> real \<Rightarrow> real" where
  "exact_sub x y = x - y"

definition exact_add :: "real \<Rightarrow> real \<Rightarrow> real" where
  "exact_add x y = x + y"

text \<open>
  The operations with the results IEEE doubles give on five operand pairs, written as the
  exact values of those doubles: \<open>14.305 - 10\<close>, and that difference added to
  \<open>12.55\<close>, \<open>11.62\<close>, \<open>10.71\<close> and \<open>10\<close>. These are all the operations of the shift
  when the anchor is 14.305 and \<open>Math.random()\<close> returns 0 at every call. Elsewhere the
  operations are exact.
\<close>

definition tie_sub :: "real \<Rightarrow> real \<Rightarrow> real" where
  "tie_sub x y =
     (if x = 14.305 \<and> y = 10 then 605874887369687 / 140737488355328 else x - y)"

definition tie_add :: "real \<Rightarrow> real \<Rightarrow> real" where
  "tie_add x y =
     (if x = 12.55 \<and> y = 605874887369687 / 140737488355328 then
        4744260732458107 / 281474976710656
      else if x = 11.62 \<and> y = 605874887369687 / 140737488355328 then
        8964978008234393 / 562949953421312
      else if x = 10.71 \<and> y = 605874887369687 / 140737488355328 then
        1056586693827625 / 70368744177664
      else if x = 10 \<and> y = 605874887369687 / 140737488355328 then
        2013249770922967 / 140737488355328
      else x + y)"

section \<open>Rounding to two decimals\<close>

lemma js_sub_Fin [simp]: "js_sub (Fin a) (Fin b) = Fin (a - b)"
  by (simp add: js_sub_def)

lemma round2_of_int: "round2 (real_of_int k / 100) = real_of_int k / 100"
proof (cases "k < 0")
  case True
  have "\<lfloor>- (real_of_int k / 100) * 100 + 1 / 2\<rfloor> = \<lfloor>real_of_int (- k) + 1 / 2\<rfloor>" by simp
  also have "\<dots> = - k" by linarith
  finally show ?thesis using True by (simp add: round2_def)
next
  case False
  have "\<lfloor>real_of_int k / 100 * 100 + 1 / 2\<rfloor> = \<lfloor>real_of_int k + 1 / 2\<rfloor>" by simp
  also have "\<dots> = k" by linarith
  finally show ?thesis using False by (simp add: round2_def)
qed

lemma round2_nonneg: "0 \<le> x \<Longrightarrow> 0 \<le> round2 x"
  by (simp add: round2_def)

lemma round2_shift:
  assumes "0 \<le> a" "0 \<le> real_of_int m / 100 + a"
  shows "round2 (real_of_int m / 100 + a) = real_of_int m / 100 + round2 a"
proof -
  have "\<lfloor>(real_of_int m / 100 + a) * 100 + 1 / 2\<rfloor> = \<lfloor>real_of_int m + (a * 100 + 1 / 2)\<rfloor>"
    by (simp add: algebra_simps)
  also have "\<dots> = m + \<lfloor>a * 100 + 1 / 2\<rfloor>"
    using int_add_floor [of m "a * 100 + 1 / 2"] by simp
  finally show ?thesis using assms by (simp add: round2_def add_divide_distrib)
qed

lemma round2_ge: "0 \<le> x \<Longrightarrow> real_of_int k / 100 \<le> x \<Longrightarrow> real_of_int k / 100 \<le> round2 x"
proof -
  assume a: "0 \<le> x" "real_of_int k / 100 \<le> x"
  then have "real_of_int k \<le> x * 100 + 1 / 2" by simp
  then have "k \<le> \<lfloor>x * 100 + 1 / 2\<rfloor>" by linarith
  then show ?thesis using a by (simp add: round2_def divide_le_cancel)
qed

lemma round2_le: "0 \<le> x \<Longrightarrow> x \<le> real_of_int k / 100 \<Longrightarrow> round2 x \<le> real_of_int k / 100"
proof -
  assume a: "0 \<le> x" "x \<le> real_of_int k / 100"
  then have "x * 100 + 1 / 2 < real_of_int (k + 1)" by simp
  then have "\<lfloor>x * 100 + 1 / 2\<rfloor> < k + 1" by linarith
  then have "\<lfloor>x * 100 + 1 / 2\<rfloor> \<le> k" by simp
  then show ?thesis using a by (simp add: round2_def divide_le_cancel)
qed

lemma round2_range: "10 \<le> x \<Longrightarrow> x \<le> 45 \<Longrightarrow> 10 \<le> round2 x \<and> round2 x \<le> 45"
  using round2_ge [of x 1000] round2_le [of x 4500] by simp

lemma round2_centi: "\<exists>k. round2 x = real_of_int k / 100"
  by (cases "x < 0") (auto simp: round2_def intro: exI [of _ "- \<lfloor>- x * 100 + 1 / 2\<rfloor>"])

lemma round2_close: "\<bar>round2 x - x\<bar> \<le> 1 / 200"
proof (cases "x < 0")
  case True
  then have r: "round2 x = - (real_of_int \<lfloor>- x * 100 + 1 / 2\<rfloor> / 100)"
    by (simp add: round2_def)
  have "real_of_int \<lfloor>- x * 100 + 1 / 2\<rfloor> \<le> - x * 100 + 1 / 2" by (rule of_int_floor_le)
  moreover have "- x * 100 + 1 / 2 < real_of_int \<lfloor>- x * 100 + 1 / 2\<rfloor> + 1" by linarith
  ultimately show ?thesis unfolding r by linarith
next
  case False
  then have r: "round2 x = real_of_int \<lfloor>x * 100 + 1 / 2\<rfloor> / 100" by (simp add: round2_def)
  have "real_of_int \<lfloor>x * 100 + 1 / 2\<rfloor> \<le> x * 100 + 1 / 2" by (rule of_int_floor_le)
  moreover have "x * 100 + 1 / 2 < real_of_int \<lfloor>x * 100 + 1 / 2\<rfloor> + 1" by linarith
  ultimately show ?thesis unfolding r by linarith
qed

lemma round2_near_centi:
  assumes "\<bar>s - real_of_int k / 100\<bar> < 1 / 200"
  shows "round2 s = real_of_int k / 100"
proof -
  have up: "s * 100 < real_of_int k + 1 / 2" and lo: "real_of_int k - 1 / 2 < s * 100"
    using assms by linarith+
  show ?thesis
  proof (cases "s < 0")
    case True
    have "real_of_int (- k) \<le> - s * 100 + 1 / 2" using up by simp
    moreover have "- s * 100 + 1 / 2 < real_of_int (- k) + 1" using lo by simp
    ultimately have "\<lfloor>- s * 100 + 1 / 2\<rfloor> = - k" by (rule floor_unique)
    then show ?thesis using True by (simp add: round2_def)
  next
    case False
    have "real_of_int k \<le> s * 100 + 1 / 2" using lo by simp
    moreover have "s * 100 + 1 / 2 < real_of_int k + 1" using up by simp
    ultimately have "\<lfloor>s * 100 + 1 / 2\<rfloor> = k" by (rule floor_unique)
    then show ?thesis using False by (simp add: round2_def)
  qed
qed

section \<open>The loop of \<open>generateMockVixData\<close> in closed form\<close>

lemma vix_step_range: "10 \<le> vix_step b r \<and> vix_step b r \<le> 45"
  by (simp add: vix_step_def)

lemma baseValue_at_range: "10 \<le> baseValue_at rnd n \<and> baseValue_at rnd n \<le> 45"
  by (cases n) (simp_all add: vix_step_range)

lemma vix_loop_closed:
  "i \<le> 365 \<Longrightarrow>
   vix_loop rnd today i (Fin (baseValue_at rnd i)) data =
   data @ map (mock_sample rnd today) [i..<365]"
proof (induction "365 - i" arbitrary: i data)
  case 0
  then have "i = 365" by simp
  then show ?case by (simp add: vix_loop.simps)
next
  case (Suc n)
  then have lt: "i < 365" by simp
  have step: "js_max (Fin 10) (js_min (Fin 45)
            (js_add (js_add (Fin (baseValue_at rnd i)) (js_mul (js_sub (Fin (rnd i)) (Fin 0.5)) (Fin 2)))
               (js_mul (js_sub (Fin 15) (js_add (Fin (baseValue_at rnd i)) (js_mul (js_sub (Fin (rnd i)) (Fin 0.5)) (Fin 2)))) (Fin 0.02))))
     = Fin (baseValue_at rnd (Suc i))"
    by (simp only: js_sub_Fin js_add.simps js_mul.simps js_max.simps js_min.simps
        baseValue_at.simps vix_step_def)
  have fx: "toFixed2 (Fin (baseValue_at rnd (Suc i))) = Fin (round2 (baseValue_at rnd (Suc i)))"
    by simp
  have IH: "vix_loop rnd today (Suc i) (Fin (baseValue_at rnd (Suc i))) (data @ [mock_sample rnd today i])
      = (data @ [mock_sample rnd today i]) @ map (mock_sample rnd today) [Suc i..<365]"
    using Suc.hyps(1)[of "Suc i"] Suc.hyps(2) lt by simp
  have "vix_loop rnd today i (Fin (baseValue_at rnd i)) data
      = vix_loop rnd today (Suc i) (Fin (baseValue_at rnd (Suc i))) (data @ [mock_sample rnd today i])"
    apply (subst vix_loop.simps)
    using lt apply (simp only: if_True Let_def step fx mock_sample_def)
    apply simp
    done
  also note IH
  finally show ?case using lt by (simp add: upt_conv_Cons)
qed

lemma generateMockVixData_closed:
  "generateMockVixData rnd today = map (mock_sample rnd today) [0..<365]"
  using vix_loop_closed [of 0 rnd today "[]"] by (simp add: generateMockVixData_def)


lemma mock_sample_VIX:
  "\<exists>v. VIX (mock_sample rnd today i) = Fin v \<and> 10 \<le> v \<and> v \<le> 45"
  using round2_range [of "baseValue_at rnd (Suc i)"] baseValue_at_range [of rnd "Suc i"]
  by (simp add: mock_sample_def)

lemma length_generateMockVixData: "length (generateMockVixData rnd today) = 365"
  by (simp add: generateMockVixData_closed)

lemma hd_generateMockVixData:
  "hd (generateMockVixData rnd today) = mock_sample rnd today 0"
  by (simp add: generateMockVixData_closed hd_map)

lemma last_generateMockVixData:
  "last (generateMockVixData rnd today) = mock_sample rnd today 364"
proof -
  have "[0..<365] = [0..<364] @ [364]" by (simp add: upt_Suc_append [symmetric] del: upt_Suc)
  then show ?thesis by (simp add: generateMockVixData_closed)
qed

lemma nth_generateMockVixData:
  "i < 365 \<Longrightarrow> generateMockVixData rnd today ! i = mock_sample rnd today i"
  by (simp add: generateMockVixData_closed)

section \<open>Component A without an anchor\<close>

text \<open>
  Claim C5. With no anchor (\<open>realVixValue\<close> is \<open>null\<close>) the chart data are the 365
  generated samples, and every value is a finite number between 10 and 45, whatever the
  random source returns (the double operations of the shift are not used).
\<close>

theorem unanchored_series_in_clamp_band:
  "length (MarketDashboard_chartData fl_sub fl_add rnd today None) = 365 \<and>
   (\<forall>s \<in> set (MarketDashboard_chartData fl_sub fl_add rnd today None).
      \<exists>v. VIX s = Fin v \<and> 10 \<le> v \<and> v \<le> 45)"
  by (auto simp: MarketDashboard_chartData_def generateMockVixData_closed mock_sample_VIX)

theorem unanchored_series_in_clamp_band_witness:
  "hd (MarketDashboard_chartData exact_sub exact_add draws_zero 0 None)
     \<in> set (MarketDashboard_chartData exact_sub exact_add draws_zero 0 None) \<and>
   (\<exists>v. VIX (hd (MarketDashboard_chartData exact_sub exact_add draws_zero 0 None)) = Fin v \<and> 10 \<le> v \<and> v \<le> 45)"
proof -
  have ne: "MarketDashboard_chartData exact_sub exact_add draws_zero 0 None \<noteq> []"
    using unanchored_series_in_clamp_band [of exact_sub exact_add draws_zero 0] by auto
  then have "hd (MarketDashboard_chartData exact_sub exact_add draws_zero 0 None)
     \<in> set (MarketDashboard_chartData exact_sub exact_add draws_zero 0 None)" by simp
  then show ?thesis using unanchored_series_in_clamp_band [of exact_sub exact_add draws_zero 0] by blast
qed

section \<open>Component A never shows a negative value\<close>

lemma shifted_nonneg:
  assumes "\<not> js_isNaN a"
  shows "js_ge (js_max (Fin 0) (toFixed2 (js_fadd fl_add (Fin x) (js_fsub fl_sub a (Fin l)))))
    (Fin 0)"
  using assms by (cases a) (simp_all add: js_sub_def)

text \<open>
  Claim C8. For every anchor (absent, \<open>NaN\<close>, or any number), every random source and
  whatever the double operations of the shift return, every value of the chart data
  satisfies \<open>value >= 0\<close>: the generated values are at least 10, and a shifted value is
  floored at zero by \<open>Math.max(0, ...)\<close>.
\<close>

theorem series_values_nonnegative:
  "\<forall>s \<in> set (MarketDashboard_chartData fl_sub fl_add rnd today anchor). js_ge (VIX s) (Fin 0)"
proof
  fix s
  assume s: "s \<in> set (MarketDashboard_chartData fl_sub fl_add rnd today anchor)"
  let ?data = "generateMockVixData rnd today"
  obtain l where l: "VIX (last ?data) = Fin l"
    using mock_sample_VIX [of rnd today 364] by (auto simp: last_generateMockVixData)
  have raw: "js_ge (VIX d) (Fin 0)" if "d \<in> set ?data" for d
  proof -
    from that obtain i where "d = mock_sample rnd today i"
      by (auto simp: generateMockVixData_closed)
    then show ?thesis using mock_sample_VIX [of rnd today i] by auto
  qed
  show "js_ge (VIX s) (Fin 0)"
  proof (cases anchor)
    case None
    then show ?thesis using s raw by (simp add: MarketDashboard_chartData_def)
  next
    case (Some a)
    show ?thesis
    proof (cases "js_isNaN a")
      case True
      then show ?thesis using s raw Some by (simp add: MarketDashboard_chartData_def)
    next
      case False
      from s Some False obtain d where d: "d \<in> set ?data"
        and sd: "s = d\<lparr>VIX := js_max (Fin 0)
            (toFixed2 (js_fadd fl_add (VIX d) (js_fsub fl_sub a (Fin l))))\<rparr>"
        by (auto simp: MarketDashboard_chartData_def Let_def l)
      from d obtain i where "d = mock_sample rnd today i"
        by (auto simp: generateMockVixData_closed)
      then obtain x where x: "VIX d = Fin x" using mock_sample_VIX [of rnd today i] by auto
      show ?thesis using shifted_nonneg [OF False, of fl_add x fl_sub l] by (simp add: sd x)
    qed
  qed
qed

theorem series_values_nonnegative_witness:
  "hd (MarketDashboard_chartData exact_sub exact_add draws_zero 0 (Some (Fin 0)))
     \<in> set (MarketDashboard_chartData exact_sub exact_add draws_zero 0 (Some (Fin 0))) \<and>
   js_ge (VIX (hd (MarketDashboard_chartData exact_sub exact_add draws_zero 0 (Some (Fin 0))))) (Fin 0)"
proof -
  have "MarketDashboard_chartData exact_sub exact_add draws_zero 0 (Some (Fin 0)) \<noteq> []"
    by (simp add: MarketDashboard_chartData_def Let_def generateMockVixData_closed)
  then have "hd (MarketDashboard_chartData exact_sub exact_add draws_zero 0 (Some (Fin 0)))
     \<in> set (MarketDashboard_chartData exact_sub exact_add draws_zero 0 (Some (Fin 0)))" by simp
  then show ?thesis using series_values_nonnegative [of exact_sub exact_add draws_zero 0 "Some (Fin 0)"] by blast
qed


section \<open>The loop of Component A against the specified recurrence\<close>

lemma clamp_if_max_min:
  "(if x < 10 then 10 else if 45 < x then 45 else x) = max 10 (min 45 (x::real))"
  by (simp add: max_def min_def)

lemma spec_day_vix_step: "spec_day v ((r - 0.5) * 2) = vix_step v r"
proof -
  have "0.02 * (15 - (v + (r - 0.5) * 2)) = (15 - (v + (r - 0.5) * 2)) * 0.02"
    by (rule mult.commute)
  then show ?thesis
    unfolding spec_day_def vix_step_def Let_def by (simp only: clamp_if_max_min)
qed

lemma spec_walk_baseValue_at: "spec_walk (change_at rnd) n = baseValue_at rnd n"
proof (induction n)
  case 0
  show ?case by simp
next
  case (Suc n)
  have "spec_walk (change_at rnd) (Suc n) = spec_day (baseValue_at rnd n) ((rnd n - 0.5) * 2)"
    by (simp only: spec_walk.simps Suc change_at_def)
  then show ?case by (simp only: spec_day_vix_step baseValue_at.simps)
qed

text \<open>
  Claim C6. The loop of \<open>generateMockVixData\<close> computes the recurrence of the
  specification, in its order: from the baseline 13.5, each of the 365 days adds the
  perturbation \<open>(Math.random() - 0.5) * 2\<close>, which lies in the band from -1 to 1,
  reverts 2 percent towards 15, clamps to the range from 10 to 45, and records the day
  with the value, printed with two decimals.
\<close>

theorem walk_follows_specified_recurrence:
  assumes "\<forall>i. 0 \<le> rnd i \<and> rnd i < 1"
  shows "(\<forall>i. - 1 \<le> change_at rnd i \<and> change_at rnd i < 1) \<and>
    generateMockVixData rnd today =
      map (\<lambda>i. \<lparr>timestamp = today - int (364 - i),
                  VIX = toFixed2 (Fin (spec_walk (change_at rnd) (Suc i)))\<rparr>) [0..<365]"
proof -
  have band: "\<forall>i. - 1 \<le> change_at rnd i \<and> change_at rnd i < 1"
  proof
    fix i
    show "- 1 \<le> change_at rnd i \<and> change_at rnd i < 1"
      using assms [rule_format, of i] by (simp add: change_at_def)
  qed
  have "mock_sample rnd today =
      (\<lambda>i. \<lparr>timestamp = today - int (364 - i),
                  VIX = toFixed2 (Fin (spec_walk (change_at rnd) (Suc i)))\<rparr>)"
    by (rule ext) (simp only: mock_sample_def spec_walk_baseValue_at toFixed2.simps)
  then have "generateMockVixData rnd today =
      map (\<lambda>i. \<lparr>timestamp = today - int (364 - i),
                  VIX = toFixed2 (Fin (spec_walk (change_at rnd) (Suc i)))\<rparr>) [0..<365]"
    by (simp only: generateMockVixData_closed)
  with band show ?thesis by (rule conjI)
qed

theorem walk_follows_specified_recurrence_witness:
  "(\<forall>i. 0 \<le> draws_half i \<and> draws_half i < 1) \<and>
   change_at draws_half 0 = 0 \<and>
   VIX (hd (generateMockVixData draws_half 0)) = Fin 13.53"
proof -
  have h: "\<forall>i. 0 \<le> draws_half i \<and> draws_half i < 1" by (simp add: draws_half_def)
  have c: "change_at draws_half 0 = 0" by (simp add: change_at_def draws_half_def)
  have "VIX (hd (generateMockVixData draws_half 0)) =
      toFixed2 (Fin (spec_walk (change_at draws_half) (Suc 0)))"
    using walk_follows_specified_recurrence [OF h, of 0] by (simp add: hd_map)
  also have "\<dots> = Fin 13.53"
    by (simp add: c spec_day_def round2_def)
  finally show ?thesis using h c by blast
qed

section \<open>The parsers of the two anchors\<close>

lemma parseUnsigned_cases:
  "parseUnsigned s = NaN \<or> (\<exists>v. parseUnsigned s = Fin v \<and> 0 \<le> v)"
  by (simp add: parseUnsigned_def Let_def)

lemma parseFloat_unsigned:
  "CHR ''-'' \<notin> set s \<Longrightarrow> CHR ''+'' \<notin> set s \<Longrightarrow> parseFloat s = parseUnsigned s"
  by (cases s) (auto simp: parseFloat_def parseUnsigned_def)

lemma filter_digits_point_signs:
  "CHR ''-'' \<notin> set (filter (\<lambda>c. c \<in> set ''0123456789.'') s) \<and>
   CHR ''+'' \<notin> set (filter (\<lambda>c. c \<in> set ''0123456789.'') s)"
  by simp

lemma filter_price_plus: "CHR ''+'' \<notin> set (filter (\<lambda>c. c \<in> set ''0123456789.-'') s)"
  by simp

lemma filter_price_no_minus:
  "CHR ''-'' \<notin> set s \<Longrightarrow>
   filter (\<lambda>c. c \<in> set ''0123456789.-'') s = filter (\<lambda>c. c \<in> set ''0123456789.'') s"
  by (rule filter_cong) auto

lemma parseFloat_stripped:
  "parseFloat (filter (\<lambda>c. c \<in> set ''0123456789.'') s) =
   parseUnsigned (filter (\<lambda>c. c \<in> set ''0123456789.'') s)"
  by (rule parseFloat_unsigned)
    (simp_all only: filter_digits_point_signs not_False_eq_True)

lemma realVixValue_Some:
  "realVixValue (Some s) = Some (parseUnsigned (filter (\<lambda>c. c \<in> set ''0123456789.'') s))"
  by (simp only: realVixValue_def option.case parseFloat_stripped)

lemma realVixValue_nonneg: "realVixValue item = Some (Fin a) \<Longrightarrow> 0 \<le> a"
proof (cases item)
  case None
  assume "realVixValue item = Some (Fin a)"
  with None show ?thesis by (simp add: realVixValue_def)
next
  case (Some s)
  assume "realVixValue item = Some (Fin a)"
  with Some have "parseUnsigned (filter (\<lambda>c. c \<in> set ''0123456789.'') s) = Fin a"
    by (simp only: realVixValue_Some option.inject)
  then show ?thesis
    using parseUnsigned_cases [of "filter (\<lambda>c. c \<in> set ''0123456789.'') s"] by auto
qed

text \<open>
  Claim C9, amended. The two anchors are not parsed by the same rule. The volatility
  anchor strips every character but digits and points, so a minus sign is dropped and the
  parsed value is never negative. The price anchor keeps the minus sign, so a leading
  minus negates the value, and it falls back to 0 where the volatility anchor is \<open>NaN\<close>.
  On a string with no minus sign the two agree up to that fallback.
\<close>

theorem anchor_parsers_differ_on_minus:
  "(\<forall>v. realVixValue (Some s) = Some v \<longrightarrow> \<not> js_lt v (Fin 0)) \<and>
   realVixValue (Some (CHR ''-'' # s)) = realVixValue (Some s) \<and>
   (CHR ''-'' \<notin> set s \<longrightarrow>
      parsePrice (CHR ''-'' # s) = js_neg (parsePrice s) \<and>
      (\<forall>v. realVixValue (Some s) = Some v \<longrightarrow>
           parsePrice s = (if js_isNaN v \<or> v = Fin 0 then Fin 0 else v)))"
proof -
  let ?t = "filter (\<lambda>c. c \<in> set ''0123456789.'') s"
  have nonneg: "\<forall>v. realVixValue (Some s) = Some v \<longrightarrow> \<not> js_lt v (Fin 0)"
    using parseUnsigned_cases [of ?t] by (auto simp only: realVixValue_Some option.inject js_lt.simps)
  have strip: "realVixValue (Some (CHR ''-'' # s)) = realVixValue (Some s)"
    by (simp add: realVixValue_def)
  have price: "parsePrice (CHR ''-'' # s) = js_neg (parsePrice s) \<and>
      (\<forall>v. realVixValue (Some s) = Some v \<longrightarrow>
           parsePrice s = (if js_isNaN v \<or> v = Fin 0 then Fin 0 else v))"
    if nm: "CHR ''-'' \<notin> set s"
  proof -
    have t: "filter (\<lambda>c. c \<in> set ''0123456789.-'') s = ?t"
      using nm by (rule filter_price_no_minus)
    have pf: "parseFloat ?t = parseUnsigned ?t"
      by (rule parseFloat_stripped)
    have p1: "parsePrice s = (if js_isNaN (parseUnsigned ?t) \<or> parseUnsigned ?t = Fin 0 then Fin 0
                              else parseUnsigned ?t)"
      by (simp only: parsePrice_def t pf Let_def)
    have "filter (\<lambda>c. c \<in> set ''0123456789.-'') (CHR ''-'' # s) = CHR ''-'' # ?t"
      using t by simp
    then have p2: "parsePrice (CHR ''-'' # s) =
        (if js_isNaN (js_neg (parseUnsigned ?t)) \<or> js_neg (parseUnsigned ?t) = Fin 0 then Fin 0
         else js_neg (parseUnsigned ?t))"
      by (simp add: parsePrice_def parseFloat_def Let_def)
    have "parsePrice (CHR ''-'' # s) = js_neg (parsePrice s)"
      using parseUnsigned_cases [of ?t] by (auto simp: p1 p2)
    moreover have "\<forall>v. realVixValue (Some s) = Some v \<longrightarrow>
           parsePrice s = (if js_isNaN v \<or> v = Fin 0 then Fin 0 else v)"
      by (simp only: realVixValue_Some option.inject p1) simp
    ultimately show ?thesis by (rule conjI)
  qed
  from nonneg strip price show ?thesis by blast
qed

theorem anchor_parsers_differ_on_minus_witness:
  "CHR ''-'' \<notin> set ''14.3'' \<and>
   realVixValue (Some ''14.3'') = Some (Fin 14.3) \<and>
   realVixValue (Some ''-14.3'') = Some (Fin 14.3) \<and>
   parsePrice ''14.3'' = Fin 14.3 \<and>
   parsePrice ''-14.3'' = Fin (- 14.3)"
proof -
  have nm: "CHR ''-'' \<notin> set ''14.3''" by simp
  have v: "realVixValue (Some ''14.3'') = Some (Fin 14.3)"
    by (simp add: realVixValue_def parseFloat_def parseUnsigned_def isDigit_def digitsValue_def)
  note t = anchor_parsers_differ_on_minus [of "''14.3''"]
  from t v have v': "realVixValue (Some ''-14.3'') = Some (Fin 14.3)" by simp
  from t nm v have p: "parsePrice ''14.3'' = Fin 14.3" by simp
  from t nm have "parsePrice ''-14.3'' = js_neg (parsePrice ''14.3'')" by blast
  with p have "parsePrice ''-14.3'' = Fin (- 14.3)" by simp
  with nm v v' p show ?thesis by blast
qed

text \<open>
  The claim as stated fails on \<open>-14.3\<close>: the volatility anchor reads 14.3, the price
  anchor reads -14.3.
\<close>

theorem vix_parser_drops_minus_counterexample:
  "realVixValue (Some ''-14.3'') = Some (Fin 14.3) \<and> parsePrice ''-14.3'' = Fin (- 14.3)"
  by (simp add: realVixValue_def parsePrice_def parseFloat_def parseUnsigned_def isDigit_def
      digitsValue_def)


section \<open>Component A with an anchor\<close>

lemma fl_ok_exact: "fl_ok exact_sub exact_add"
  by (simp add: fl_ok_def exact_sub_def exact_add_def fl_tol_def)

lemma fl_okD:
  assumes "fl_ok fl_sub fl_add"
  shows "\<bar>fl_sub x y - (x - y)\<bar> \<le> (\<bar>x\<bar> + \<bar>y\<bar>) / 2 ^ 50"
    and "\<bar>fl_add x y - (x + y)\<bar> \<le> (\<bar>x\<bar> + \<bar>y\<bar>) / 2 ^ 50"
  using assms by (simp_all add: fl_ok_def fl_tol_def)

lemma shift_error:
  assumes ok: "fl_ok fl_sub fl_add"
    and x: "10 \<le> x" "x \<le> 45" and l: "10 \<le> l" "l \<le> 45"
    and a: "0 \<le> a" "a \<le> 10 ^ 9"
  shows "\<bar>fl_add x (fl_sub a l) - (x + (a - l))\<bar> \<le> 1 / 10 ^ 5"
proof -
  have "\<bar>fl_sub a l - (a - l)\<bar> \<le> (a + l) / 2 ^ 50"
    using fl_okD(1) [OF ok, of a l] a(1) l(1) by simp
  also have "\<dots> \<le> 1 / 1000000" using a(2) l(2) by simp
  finally have e1: "\<bar>fl_sub a l - (a - l)\<bar> \<le> 1 / 1000000" .
  have d: "\<bar>fl_sub a l\<bar> \<le> a + l + 1" using e1 a(1) l(1) by linarith
  have "\<bar>fl_add x (fl_sub a l) - (x + fl_sub a l)\<bar> \<le> (x + \<bar>fl_sub a l\<bar>) / 2 ^ 50"
    using fl_okD(2) [OF ok, of x "fl_sub a l"] x(1) by simp
  also have "\<dots> \<le> (x + (a + l + 1)) / 2 ^ 50" using d by (simp add: divide_right_mono)
  also have "\<dots> \<le> 1 / 1000000" using a(2) l(2) x(2) by simp
  finally have e2: "\<bar>fl_add x (fl_sub a l) - (x + fl_sub a l)\<bar> \<le> 1 / 1000000" .
  have "\<bar>fl_add x (fl_sub a l) - (x + (a - l))\<bar> \<le> 1 / 100000" using e1 e2 by linarith
  then show ?thesis by simp
qed

lemma generated_value_range:
  "10 \<le> round2 (baseValue_at rnd n) \<and> round2 (baseValue_at rnd n) \<le> 45"
  using baseValue_at_range [of rnd n] by (simp add: round2_range)

lemma chartData_anchored:
  "MarketDashboard_chartData fl_sub fl_add rnd today (Some (Fin a)) =
   map (\<lambda>i. \<lparr>timestamp = today - int (364 - i),
              VIX = Fin (shifted_value fl_sub fl_add rnd a i)\<rparr>) [0..<365]"
proof -
  have l: "VIX (last (generateMockVixData rnd today)) = Fin (round2 (baseValue_at rnd 365))"
    by (simp add: last_generateMockVixData mock_sample_def)
  have "map (\<lambda>d. d\<lparr>VIX := js_max (Fin 0)
          (toFixed2 (js_fadd fl_add (VIX d)
             (js_fsub fl_sub (Fin a) (Fin (round2 (baseValue_at rnd 365))))))\<rparr>)
        (map (mock_sample rnd today) [0..<365]) =
      map (\<lambda>i. \<lparr>timestamp = today - int (364 - i),
                 VIX = Fin (shifted_value fl_sub fl_add rnd a i)\<rparr>) [0..<365]"
    by (simp add: mock_sample_def shifted_value_def)
  then have "map (\<lambda>d. d\<lparr>VIX := js_max (Fin 0)
          (toFixed2 (js_fadd fl_add (VIX d)
             (js_fsub fl_sub (Fin a) (VIX (last (generateMockVixData rnd today))))))\<rparr>)
        (generateMockVixData rnd today) =
      map (\<lambda>i. \<lparr>timestamp = today - int (364 - i),
                 VIX = Fin (shifted_value fl_sub fl_add rnd a i)\<rparr>) [0..<365]"
    unfolding l by (simp only: generateMockVixData_closed)
  then show ?thesis
    by (simp only: MarketDashboard_chartData_def Let_def option.case js_isNaN.simps
        not_False_eq_True if_True)
qed

lemma nth_chartData_anchored:
  "i < 365 \<Longrightarrow> MarketDashboard_chartData fl_sub fl_add rnd today (Some (Fin a)) ! i =
     \<lparr>timestamp = today - int (364 - i), VIX = Fin (shifted_value fl_sub fl_add rnd a i)\<rparr>"
  by (simp add: chartData_anchored)

lemma last_chartData_anchored:
  "last (MarketDashboard_chartData fl_sub fl_add rnd today (Some (Fin a))) =
     \<lparr>timestamp = today, VIX = Fin (shifted_value fl_sub fl_add rnd a 364)\<rparr>"
proof -
  have "last (MarketDashboard_chartData fl_sub fl_add rnd today (Some (Fin a))) =
      MarketDashboard_chartData fl_sub fl_add rnd today (Some (Fin a)) ! 364"
    by (simp add: last_conv_nth chartData_anchored)
  then show ?thesis by (simp add: nth_chartData_anchored)
qed

text \<open>The rounded sum of a sample whose exact sum is near a number with two decimals.\<close>

lemma rounded_sum_near_centi:
  assumes ok: "fl_ok fl_sub fl_add" and a: "0 \<le> a" "a \<le> 10 ^ 9"
    and k: "\<bar>a - real_of_int k / 100\<bar> < 1 / 200 - 1 / 10 ^ 5"
  shows "round2 (fl_add (round2 (baseValue_at rnd (Suc i)))
                        (fl_sub a (round2 (baseValue_at rnd 365)))) =
    round2 (baseValue_at rnd (Suc i)) - round2 (baseValue_at rnd 365) + real_of_int k / 100"
proof -
  let ?x = "round2 (baseValue_at rnd (Suc i))" and ?l = "round2 (baseValue_at rnd 365)"
  obtain m where m: "?x = real_of_int m / 100" using round2_centi by blast
  obtain n where n: "?l = real_of_int n / 100" using round2_centi by blast
  have e: "\<bar>fl_add ?x (fl_sub a ?l) - (?x + (a - ?l))\<bar> \<le> 1 / 10 ^ 5"
    using ok generated_value_range [of rnd "Suc i"] generated_value_range [of rnd 365] a
    by (intro shift_error) simp_all
  have c: "?x - ?l + real_of_int k / 100 = real_of_int (m - n + k) / 100"
    unfolding m n by (simp add: diff_divide_distrib add_divide_distrib)
  have e': "\<bar>fl_add ?x (fl_sub a ?l) - (?x + (a - ?l))\<bar> \<le> 1 / 100000" using e by simp
  have k': "\<bar>a - real_of_int k / 100\<bar> < 1 / 200 - 1 / 100000" using k by simp
  have "\<bar>fl_add ?x (fl_sub a ?l) - (?x - ?l + real_of_int k / 100)\<bar> < 1 / 200"
    using e' k' by linarith
  then show ?thesis unfolding c by (rule round2_near_centi)
qed

lemma shifted_value_near_centi:
  assumes ok: "fl_ok fl_sub fl_add" and a: "0 \<le> a" "a \<le> 10 ^ 9"
    and k: "\<bar>a - real_of_int k / 100\<bar> < 1 / 200 - 1 / 10 ^ 5"
  shows "shifted_value fl_sub fl_add rnd a i =
    max 0 (round2 (baseValue_at rnd (Suc i)) - round2 (baseValue_at rnd 365) +
           real_of_int k / 100)"
  by (simp only: shifted_value_def rounded_sum_near_centi [OF ok a k])

lemma last_value_near_centi:
  assumes ok: "fl_ok fl_sub fl_add" and a: "0 \<le> a" "a \<le> 10 ^ 9"
    and k: "\<bar>a - real_of_int k / 100\<bar> < 1 / 200 - 1 / 10 ^ 5"
  shows "shifted_value fl_sub fl_add rnd a 364 = real_of_int k / 100"
proof -
  have "\<bar>a - real_of_int k / 100\<bar> < 1 / 200 - 1 / 100000" using k by simp
  then have "- (1 / 2) < real_of_int k" using a(1) by linarith
  then have "0 \<le> k" by linarith
  then have "0 \<le> real_of_int k / 100" by simp
  moreover have "(365::nat) = Suc 364" by simp
  ultimately show ?thesis
    using shifted_value_near_centi [OF ok a k, of rnd 364] by simp
qed

lemma last_value_close:
  assumes ok: "fl_ok fl_sub fl_add" and a: "0 \<le> a" "a \<le> 10 ^ 9"
  shows "\<bar>shifted_value fl_sub fl_add rnd a 364 - a\<bar> \<le> 1 / 200 + 1 / 10 ^ 5"
proof -
  let ?l = "round2 (baseValue_at rnd 365)"
  define s where "s = fl_add ?l (fl_sub a ?l)"
  have sv: "shifted_value fl_sub fl_add rnd a 364 = max 0 (round2 s)"
    by (simp add: shifted_value_def s_def)
  have "\<bar>s - (?l + (a - ?l))\<bar> \<le> 1 / 10 ^ 5"
    unfolding s_def using ok generated_value_range [of rnd 365] a
    by (intro shift_error) simp_all
  then have e: "\<bar>s - a\<bar> \<le> 1 / 100000" by simp
  have r: "\<bar>round2 s - s\<bar> \<le> 1 / 200" by (rule round2_close)
  have "\<bar>max 0 (round2 s) - a\<bar> \<le> 1 / 200 + 1 / 100000"
    using e r a(1) by linarith
  then show ?thesis unfolding sv by simp
qed

text \<open>
  Claim C1, amended. For every anchor string that parses to a finite number \<open>a\<close> up to
  \<open>10^9\<close>, and every rounding of the two double operations within \<open>fl_ok\<close>, the chart
  data are 365 samples on consecutive days ending today, with strictly increasing
  timestamps. The last value is within 0.005 of \<open>a\<close>, up to the error \<open>10^-5\<close> of the
  doubles. It is the number with two decimals nearest to \<open>a\<close> whenever \<open>a\<close> is not within
  \<open>10^-5\<close> of a tie between two such numbers, and so it is \<open>a\<close> itself when \<open>a\<close> has at
  most two decimals.
\<close>

theorem anchored_series_ends_near_anchor:
  assumes anchor: "realVixValue realVixItem = Some (Fin a)"
    and bound: "a \<le> 10 ^ 9"
    and ok: "fl_ok fl_sub fl_add"
  shows "length (MarketDashboard_chartData fl_sub fl_add rnd today (realVixValue realVixItem)) = 365 \<and>
    (\<forall>i<365. timestamp
        (MarketDashboard_chartData fl_sub fl_add rnd today (realVixValue realVixItem) ! i) =
        today - 364 + int i) \<and>
    sorted_wrt (<) (map timestamp
        (MarketDashboard_chartData fl_sub fl_add rnd today (realVixValue realVixItem))) \<and>
    (\<exists>v. VIX (last (MarketDashboard_chartData fl_sub fl_add rnd today
                 (realVixValue realVixItem))) = Fin v \<and>
         \<bar>v - a\<bar> \<le> 1 / 200 + 1 / 10 ^ 5) \<and>
    (\<forall>k. \<bar>a - real_of_int k / 100\<bar> < 1 / 200 - 1 / 10 ^ 5 \<longrightarrow>
       VIX (last (MarketDashboard_chartData fl_sub fl_add rnd today
              (realVixValue realVixItem))) = Fin (real_of_int k / 100)) \<and>
    ((\<exists>k. a = real_of_int k / 100) \<longrightarrow>
       VIX (last (MarketDashboard_chartData fl_sub fl_add rnd today
              (realVixValue realVixItem))) = Fin a)"
proof -
  let ?cd = "MarketDashboard_chartData fl_sub fl_add rnd today (Some (Fin a))"
  have a: "0 \<le> a" using anchor by (rule realVixValue_nonneg)
  have len: "length ?cd = 365" by (simp add: chartData_anchored)
  have ts: "\<forall>i<365. timestamp (?cd ! i) = today - 364 + int i"
    by (simp add: nth_chartData_anchored)
  have srt: "sorted_wrt (<) (map timestamp ?cd)"
    unfolding sorted_wrt_iff_nth_less using ts len by simp
  have lst: "VIX (last ?cd) = Fin (shifted_value fl_sub fl_add rnd a 364)"
    by (simp only: last_chartData_anchored vix_sample.select_convs)
  have close: "\<exists>v. VIX (last ?cd) = Fin v \<and> \<bar>v - a\<bar> \<le> 1 / 200 + 1 / 10 ^ 5"
    using lst last_value_close [OF ok a bound] by blast
  have near: "\<forall>k. \<bar>a - real_of_int k / 100\<bar> < 1 / 200 - 1 / 10 ^ 5 \<longrightarrow>
       VIX (last ?cd) = Fin (real_of_int k / 100)"
    using lst last_value_near_centi [OF ok a bound] by simp
  have "(\<exists>k. a = real_of_int k / 100) \<longrightarrow> VIX (last ?cd) = Fin a"
  proof (intro impI, elim exE)
    fix k
    assume e: "a = real_of_int k / 100"
    then have "\<bar>a - real_of_int k / 100\<bar> < 1 / 200 - 1 / 10 ^ 5" by simp
    with near have "VIX (last ?cd) = Fin (real_of_int k / 100)" by blast
    then show "VIX (last ?cd) = Fin a" unfolding e .
  qed
  with len ts srt close near show ?thesis unfolding anchor by blast
qed

theorem anchored_series_ends_near_anchor_witness:
  "realVixValue (Some ''14.30%'') = Some (Fin 14.3) \<and> (14.3::real) \<le> 10 ^ 9 \<and>
   fl_ok exact_sub exact_add \<and>
   length (MarketDashboard_chartData exact_sub exact_add draws_zero 0
     (realVixValue (Some ''14.30%''))) = 365 \<and>
   VIX (last (MarketDashboard_chartData exact_sub exact_add draws_zero 0
     (realVixValue (Some ''14.30%'')))) = Fin 14.3"
proof -
  have p: "realVixValue (Some ''14.30%'') = Some (Fin 14.3)"
    by (simp add: realVixValue_def parseFloat_def parseUnsigned_def isDigit_def digitsValue_def)
  have b: "(14.3::real) \<le> 10 ^ 9" by simp
  have k: "\<exists>k. (14.3::real) = real_of_int k / 100" by (rule exI [of _ 1430]) simp
  note t = anchored_series_ends_near_anchor [OF p b fl_ok_exact, of draws_zero 0]
  from t have "length (MarketDashboard_chartData exact_sub exact_add draws_zero 0
     (realVixValue (Some ''14.30%''))) = 365"
    by (rule conjunct1)
  moreover from t k
  have "VIX (last (MarketDashboard_chartData exact_sub exact_add draws_zero 0
     (realVixValue (Some ''14.30%'')))) = Fin 14.3"
    by blast
  ultimately show ?thesis using p b fl_ok_exact by blast
qed

text \<open>
  The claim as stated fails for an anchor with a third decimal: the series anchored at
  14.304 ends at 14.3, which is 0.004 away, whatever the rounding of the doubles.
\<close>

lemma anchor_14_304_any_rounding:
  assumes "fl_ok fl_sub fl_add"
  shows "VIX (last (MarketDashboard_chartData fl_sub fl_add rnd today (Some (Fin 14.304)))) =
    Fin 14.3"
proof -
  have "\<bar>(14.304::real) - real_of_int 1430 / 100\<bar> < 1 / 200 - 1 / 10 ^ 5" by simp
  then have "shifted_value fl_sub fl_add rnd 14.304 364 = real_of_int 1430 / 100"
    by (intro last_value_near_centi assms) simp_all
  moreover have "real_of_int 1430 / 100 = (14.3::real)" by simp
  ultimately have "shifted_value fl_sub fl_add rnd 14.304 364 = 14.3" by (simp only:)
  then show ?thesis by (simp only: last_chartData_anchored vix_sample.select_convs)
qed

theorem anchor_with_three_decimals_counterexample:
  "realVixValue (Some ''14.304'') = Some (Fin 14.304) \<and>
   VIX (last (MarketDashboard_chartData exact_sub exact_add draws_zero 0
     (realVixValue (Some ''14.304'')))) = Fin 14.3"
proof -
  have p: "realVixValue (Some ''14.304'') = Some (Fin 14.304)"
    by (simp add: realVixValue_def parseFloat_def parseUnsigned_def isDigit_def digitsValue_def)
  show ?thesis unfolding p
    using anchor_14_304_any_rounding [OF fl_ok_exact, of draws_zero 0] by (simp only: simp_thms)
qed

section \<open>The shift and the day-over-day deltas\<close>

lemma VIX_nth_generateMockVixData:
  "i < 365 \<Longrightarrow>
   VIX (generateMockVixData rnd today ! i) = Fin (round2 (baseValue_at rnd (Suc i)))"
  by (simp only: nth_generateMockVixData mock_sample_def vix_sample.select_convs)


lemma VIX_nth_chartData_anchored:
  "i < 365 \<Longrightarrow>
   VIX (MarketDashboard_chartData fl_sub fl_add rnd today (Some (Fin a)) ! i) =
   Fin (shifted_value fl_sub fl_add rnd a i)"
  by (simp only: nth_chartData_anchored vix_sample.select_convs)



lemma floor_run:
  assumes "\<forall>k<n. rnd k = 0" and "4 \<le> n"
  shows "baseValue_at rnd n = 10"
  using assms(2,1)
proof (induction n rule: dec_induct)
  case base
  then have "rnd 0 = 0" "rnd 1 = 0" "rnd 2 = 0" "rnd 3 = 0" by simp_all
  then show ?case by (simp add: eval_nat_numeral vix_step_def)
next
  case (step n)
  then have "baseValue_at rnd n = 10" and "rnd n = 0" by simp_all
  then show ?case by (simp add: vix_step_def)
qed







lemma zero_floor: "4 \<le> n \<Longrightarrow> baseValue_at draws_zero n = 10"
  by (rule floor_run) (simp_all add: draws_zero_def)

lemma draws_zero_values:
  "round2 (baseValue_at draws_zero (Suc 0)) = 12.55"
  "round2 (baseValue_at draws_zero (Suc (Suc 0))) = 11.62"
  "round2 (baseValue_at draws_zero (Suc (Suc (Suc 0)))) = 10.71"
  "round2 (baseValue_at draws_zero 365) = 10"
  by (simp_all add: vix_step_def draws_zero_def round2_def zero_floor)


section \<open>An anchor on a tie\<close>

lemma fl_ok_tie: "fl_ok tie_sub tie_add"
  unfolding fl_ok_def
proof (intro allI conjI)
  fix x y :: real
  show "\<bar>tie_sub x y - (x - y)\<bar> \<le> fl_tol * (\<bar>x\<bar> + \<bar>y\<bar>)"
    by (simp add: tie_sub_def fl_tol_def)
  show "\<bar>tie_add x y - (x + y)\<bar> \<le> fl_tol * (\<bar>x\<bar> + \<bar>y\<bar>)"
    by (auto simp: tie_add_def fl_tol_def)
qed

text \<open>
  Why the amended claims leave out anchors on a tie. With the results of IEEE doubles,
  the series anchored at 14.305 starts 16.86, 15.92, 15.02 and ends at 14.3: the last value
  is not 14.305 rounded half up, and the first two deltas are -0.94 and -0.90 where the
  generated series has -0.93 and -0.91, although no sample is floored.
\<close>

lemma tie_anchor_example:
  "fl_ok tie_sub tie_add \<and>
   realVixValue (Some ''14.305'') = Some (Fin 14.305) \<and>
   round2 14.305 = 14.31 \<and>
   VIX (MarketDashboard_chartData tie_sub tie_add draws_zero 0
          (realVixValue (Some ''14.305'')) ! 0) = Fin 16.86 \<and>
   VIX (MarketDashboard_chartData tie_sub tie_add draws_zero 0
          (realVixValue (Some ''14.305'')) ! 1) = Fin 15.92 \<and>
   VIX (MarketDashboard_chartData tie_sub tie_add draws_zero 0
          (realVixValue (Some ''14.305'')) ! 2) = Fin 15.02 \<and>
   VIX (last (MarketDashboard_chartData tie_sub tie_add draws_zero 0
          (realVixValue (Some ''14.305'')))) = Fin 14.3 \<and>
   VIX (generateMockVixData draws_zero 0 ! 0) = Fin 12.55 \<and>
   VIX (generateMockVixData draws_zero 0 ! 1) = Fin 11.62 \<and>
   VIX (generateMockVixData draws_zero 0 ! 2) = Fin 10.71"
proof -
  have p: "realVixValue (Some ''14.305'') = Some (Fin 14.305)"
    by (simp add: realVixValue_def parseFloat_def parseUnsigned_def isDigit_def digitsValue_def)
  have r: "round2 14.305 = 14.31" by (simp add: round2_def)
  have d: "tie_sub 14.305 10 = 605874887369687 / 140737488355328"
    by (simp add: tie_sub_def)
  have v0: "shifted_value tie_sub tie_add draws_zero 14.305 0 = 16.86"
    unfolding shifted_value_def draws_zero_values d by (simp add: tie_add_def round2_def)
  have v1: "shifted_value tie_sub tie_add draws_zero 14.305 (Suc 0) = 15.92"
    unfolding shifted_value_def draws_zero_values d by (simp add: tie_add_def round2_def)
  have v2: "shifted_value tie_sub tie_add draws_zero 14.305 (Suc (Suc 0)) = 15.02"
    unfolding shifted_value_def draws_zero_values d by (simp add: tie_add_def round2_def)
  have e: "(365::nat) = Suc 364" by simp
  have vl: "shifted_value tie_sub tie_add draws_zero 14.305 364 = 14.3"
    unfolding shifted_value_def e [symmetric] draws_zero_values d
    by (simp add: tie_add_def round2_def)
  have s0: "VIX (MarketDashboard_chartData tie_sub tie_add draws_zero 0
      (Some (Fin 14.305)) ! 0) = Fin 16.86"
    using VIX_nth_chartData_anchored [of 0 tie_sub tie_add draws_zero 0 "14.305"]
    by (simp only: v0)
  have s1: "VIX (MarketDashboard_chartData tie_sub tie_add draws_zero 0
      (Some (Fin 14.305)) ! Suc 0) = Fin 15.92"
    using VIX_nth_chartData_anchored [of "Suc 0" tie_sub tie_add draws_zero 0 "14.305"]
    by (simp only: v1)
  have s2: "VIX (MarketDashboard_chartData tie_sub tie_add draws_zero 0
      (Some (Fin 14.305)) ! Suc (Suc 0)) = Fin 15.02"
    using VIX_nth_chartData_anchored [of "Suc (Suc 0)" tie_sub tie_add draws_zero 0 "14.305"]
    by (simp only: v2)
  have sl: "VIX (last (MarketDashboard_chartData tie_sub tie_add draws_zero 0
      (Some (Fin 14.305)))) = Fin 14.3"
    by (simp only: last_chartData_anchored vix_sample.select_convs vl)
  have u0: "VIX (generateMockVixData draws_zero 0 ! 0) = Fin 12.55"
  proof -
    have "VIX (generateMockVixData draws_zero 0 ! 0) =
        Fin (round2 (baseValue_at draws_zero (Suc 0)))"
      by (rule VIX_nth_generateMockVixData) simp
    then show ?thesis by (simp only: draws_zero_values)
  qed
  have u1: "VIX (generateMockVixData draws_zero 0 ! Suc 0) = Fin 11.62"
  proof -
    have "VIX (generateMockVixData draws_zero 0 ! Suc 0) =
        Fin (round2 (baseValue_at draws_zero (Suc (Suc 0))))"
      by (rule VIX_nth_generateMockVixData) simp
    then show ?thesis by (simp only: draws_zero_values)
  qed
  have u2: "VIX (generateMockVixData draws_zero 0 ! Suc (Suc 0)) = Fin 10.71"
  proof -
    have "VIX (generateMockVixData draws_zero 0 ! Suc (Suc 0)) =
        Fin (round2 (baseValue_at draws_zero (Suc (Suc (Suc 0)))))"
      by (rule VIX_nth_generateMockVixData) simp
    then show ?thesis by (simp only: draws_zero_values)
  qed
  have n2: "(2::nat) = Suc (Suc 0)" by simp
  show ?thesis unfolding p n2 using fl_ok_tie r s0 s1 s2 sl u0 u1 u2 by simp
qed


section \<open>Component B: length and forced endpoint\<close>

lemma stock_loop_closed:
  "i \<le> days \<Longrightarrow>
   stock_loop rnd today currentPrice price0 i data =
   data @ map (stock_sample_at rnd today currentPrice price0) [i..<days]"
proof (induction "days - i" arbitrary: i data)
  case 0
  then have "\<not> i < days" by simp
  then show ?case by (subst stock_loop.simps) simp
next
  case (Suc n)
  then have lt: "i < days" by simp
  have IH: "stock_loop rnd today currentPrice price0 (Suc i)
        (data @ [stock_sample_at rnd today currentPrice price0 i]) =
      (data @ [stock_sample_at rnd today currentPrice price0 i]) @
        map (stock_sample_at rnd today currentPrice price0) [Suc i..<days]"
    using Suc.hyps(1) [of "Suc i"] Suc.hyps(2) lt by simp
  have "stock_loop rnd today currentPrice price0 i data =
      stock_loop rnd today currentPrice price0 (Suc i)
        (data @ [stock_sample_at rnd today currentPrice price0 i])"
    by (subst stock_loop.simps) (simp add: lt stock_sample_at_def)
  also note IH
  finally show ?case using lt by (simp add: upt_conv_Cons)
qed

lemma StockDetailModal_chartData_closed:
  "StockDetailModal_chartData rnd today currentPrice changeRate =
   map (stock_sample_at rnd today currentPrice (startPrice currentPrice changeRate)) [0..<30]"
  using stock_loop_closed [of 0 rnd today currentPrice "startPrice currentPrice changeRate" "[]"]
  by (simp add: StockDetailModal_chartData_def days_def)

lemma length_StockDetailModal_chartData:
  "length (StockDetailModal_chartData rnd today currentPrice changeRate) = 30"
  by (simp add: StockDetailModal_chartData_closed)

lemma nth_StockDetailModal_chartData:
  "i < 30 \<Longrightarrow> StockDetailModal_chartData rnd today currentPrice changeRate ! i =
     stock_sample_at rnd today currentPrice (startPrice currentPrice changeRate) i"
  by (simp add: StockDetailModal_chartData_closed)

lemma hd_StockDetailModal_chartData:
  "hd (StockDetailModal_chartData rnd today currentPrice changeRate) =
     stock_sample_at rnd today currentPrice (startPrice currentPrice changeRate) 0"
  by (simp add: StockDetailModal_chartData_closed hd_map)

lemma last_StockDetailModal_chartData:
  "last (StockDetailModal_chartData rnd today currentPrice changeRate) =
     stock_sample_at rnd today currentPrice (startPrice currentPrice changeRate) 29"
proof -
  have "last (StockDetailModal_chartData rnd today currentPrice changeRate) =
      StockDetailModal_chartData rnd today currentPrice changeRate ! 29"
    by (simp add: last_conv_nth StockDetailModal_chartData_closed)
  then show ?thesis by (simp add: nth_StockDetailModal_chartData)
qed

lemma dailyPrice_last: "dailyPrice rnd currentPrice price0 29 = currentPrice"
  by (simp add: dailyPrice_def days_def)

lemma price_last:
  "price (last (StockDetailModal_chartData rnd today currentPrice changeRate)) =
   toFixed2 currentPrice"
  by (simp add: last_StockDetailModal_chartData stock_sample_at_def dailyPrice_last)

lemma forced_endpoint_of_cents:
  "price (last (StockDetailModal_chartData rnd today (Fin (real_of_int k / 100)) changeRate)) =
   Fin (real_of_int k / 100)"
  by (simp only: price_last toFixed2.simps round2_of_int)

text \<open>
  Claim C2. The series has 30 samples for every price and change rate, and the last
  sample is forced to the current price; but it is stored, as every sample is, with two
  decimals. For a price with at most two decimals the last value is the price
  (\<open>forced_endpoint_of_cents\<close>). For the price string \<open>$150.234\<close> the last value is 150.23
  and not the current price 150.234, against the claim and against the comment of the
  source on the forced endpoint.
\<close>

theorem forced_endpoint_is_stored_with_two_decimals:
  "parsePrice ''$150.234'' = Fin 150.234 \<and>
   parseChange ''+2.5%'' = Fin 0.025 \<and>
   length (StockDetailModal_chartData draws_zero 0
     (parsePrice ''$150.234'') (parseChange ''+2.5%'')) = 30 \<and>
   price (last (StockDetailModal_chartData draws_zero 0
     (parsePrice ''$150.234'') (parseChange ''+2.5%''))) = Fin 150.23"
proof -
  have p: "parsePrice ''$150.234'' = Fin 150.234"
    by (simp add: parsePrice_def parseFloat_def parseUnsigned_def isDigit_def digitsValue_def)
  have c: "parseChange ''+2.5%'' = Fin 0.025"
    by (simp add: parseChange_def parseFloat_def parseUnsigned_def isDigit_def digitsValue_def)
  have r: "round2 150.234 = 150.23" by (simp add: round2_def)
  have "price (last (StockDetailModal_chartData draws_zero 0 (Fin 150.234) (Fin 0.025))) =
      Fin (round2 150.234)"
    by (simp only: price_last toFixed2.simps)
  moreover have "length (StockDetailModal_chartData draws_zero 0 (Fin 150.234) (Fin 0.025)) = 30"
    by (rule length_StockDetailModal_chartData)
  ultimately show ?thesis unfolding p c r by (simp only: simp_thms)
qed

section \<open>Component B on a zero price\<close>

lemma startPrice_zero:
  assumes "changeRate \<noteq> NaN" and "changeRate \<noteq> Fin (- 1)"
  shows "startPrice (Fin 0) changeRate = Fin 0"
proof (cases changeRate)
  case (Fin r)
  with assms(2) have "1 + r \<noteq> 0" by auto
  with Fin show ?thesis by (simp add: startPrice_def)
next
  case PInf
  then show ?thesis by (simp add: startPrice_def)
next
  case NInf
  then show ?thesis by (simp add: startPrice_def)
next
  case NaN
  with assms(1) show ?thesis by simp
qed

lemma dailyPrice_zero: "dailyPrice rnd (Fin 0) (Fin 0) i = Fin 0"
  by (simp add: dailyPrice_def days_def volatility_def Let_def)

lemma round2_zero: "round2 0 = 0"
  by (simp add: round2_def)

text \<open>
  Claim C4, amended. For a current price of 0, which is also what \<open>parsePrice\<close> returns
  for a string that does not parse, and every change rate that is a number other than -1
  (so not \<open>NaN\<close>), the chart data are 30 samples of value 0.
\<close>

theorem zero_price_gives_zero_series:
  assumes "changeRate \<noteq> NaN" and "changeRate \<noteq> Fin (- 1)"
  shows "length (StockDetailModal_chartData rnd today (Fin 0) changeRate) = 30 \<and>
    (\<forall>s \<in> set (StockDetailModal_chartData rnd today (Fin 0) changeRate). price s = Fin 0) \<and>
    (js_isNaN (parseFloat (filter (\<lambda>c. c \<in> set ''0123456789.-'') priceStr)) \<longrightarrow>
       parsePrice priceStr = Fin 0)"
proof -
  have "startPrice (Fin 0) changeRate = Fin 0" using assms by (rule startPrice_zero)
  then have "\<forall>s \<in> set (StockDetailModal_chartData rnd today (Fin 0) changeRate). price s = Fin 0"
    by (auto simp: StockDetailModal_chartData_closed stock_sample_at_def dailyPrice_zero round2_zero)
  moreover have "js_isNaN (parseFloat (filter (\<lambda>c. c \<in> set ''0123456789.-'') priceStr)) \<longrightarrow>
       parsePrice priceStr = Fin 0"
    by (simp add: parsePrice_def Let_def)
  ultimately show ?thesis using length_StockDetailModal_chartData by blast
qed

theorem zero_price_gives_zero_series_witness:
  "parseChange ''+2.5%'' \<noteq> NaN \<and> parseChange ''+2.5%'' \<noteq> Fin (- 1) \<and>
   parsePrice ''N/A'' = Fin 0 \<and>
   hd (StockDetailModal_chartData draws_zero 0 (parsePrice ''N/A'') (parseChange ''+2.5%''))
     \<in> set (StockDetailModal_chartData draws_zero 0 (parsePrice ''N/A'') (parseChange ''+2.5%'')) \<and>
   price (hd (StockDetailModal_chartData draws_zero 0 (parsePrice ''N/A'')
     (parseChange ''+2.5%''))) = Fin 0"
proof -
  have c: "parseChange ''+2.5%'' = Fin 0.025"
    by (simp add: parseChange_def parseFloat_def parseUnsigned_def isDigit_def digitsValue_def)
  have n: "js_isNaN (parseFloat (filter (\<lambda>c. c \<in> set ''0123456789.-'') ''N/A''))"
    by (simp add: parseFloat_def)
  have h1: "Fin 0.025 \<noteq> NaN" and h2: "Fin 0.025 \<noteq> Fin (- 1)" by simp_all
  note t = zero_price_gives_zero_series [OF h1 h2, of draws_zero 0 "''N/A''"]
  from t n have p: "parsePrice ''N/A'' = Fin 0" by blast
  from t have "StockDetailModal_chartData draws_zero 0 (Fin 0) (Fin 0.025) \<noteq> []" by auto
  then have m: "hd (StockDetailModal_chartData draws_zero 0 (Fin 0) (Fin 0.025))
      \<in> set (StockDetailModal_chartData draws_zero 0 (Fin 0) (Fin 0.025))" by simp
  with t have "price (hd (StockDetailModal_chartData draws_zero 0 (Fin 0) (Fin 0.025))) = Fin 0"
    by blast
  with m h1 h2 show ?thesis unfolding p c by (simp only: simp_thms)
qed

text \<open>
  The claim as stated fails for the change rate -1: the start price is \<open>0 / 0\<close>, and
  the first sample is \<open>NaN\<close>, not 0.
\<close>

theorem zero_price_with_full_loss_counterexample:
  "parsePrice ''N/A'' = Fin 0 \<and>
   parseChange ''-100%'' = Fin (- 1) \<and>
   price (hd (StockDetailModal_chartData draws_zero 0 (parsePrice ''N/A'')
     (parseChange ''-100%''))) = NaN"
proof -
  have p: "parsePrice ''N/A'' = Fin 0"
    by (simp add: parsePrice_def parseFloat_def)
  have c: "parseChange ''-100%'' = Fin (- 1)"
    by (simp add: parseChange_def parseFloat_def parseUnsigned_def isDigit_def digitsValue_def)
  have s: "startPrice (Fin 0) (Fin (- 1)) = NaN" by (simp add: startPrice_def)
  have d: "dailyPrice draws_zero (Fin 0) NaN 0 = NaN"
    by (simp add: dailyPrice_def days_def Let_def)
  have "price (hd (StockDetailModal_chartData draws_zero 0 (Fin 0) (Fin (- 1)))) = NaN"
    by (simp add: hd_StockDetailModal_chartData stock_sample_at_def s d)
  then show ?thesis unfolding p c by (simp only: simp_thms)
qed

section \<open>Component B: the start price\<close>

lemma dailyPrice_Fin:
  "i < 29 \<Longrightarrow> dailyPrice rnd (Fin c) (Fin p) i =
     Fin ((c * (real i / 29) + p * (1 - real i / 29)) +
          (c * (real i / 29) + p * (1 - real i / 29)) * (rnd i - 0.5) * 0.02)"
  by (simp add: dailyPrice_def days_def volatility_def Let_def)

text \<open>
  Claim C7. The start price is \<open>currentPrice * 0.95\<close> when the magnitude of the change
  rate is below 0.001, and \<open>currentPrice / (1 + changeRate)\<close> otherwise; it is the trend
  value of the first sample. The rule is stated for all JavaScript numbers, and again for
  finite ones in terms of real arithmetic.
\<close>

theorem start_price_rule:
  "(js_lt (js_abs changeRate) (Fin 0.001) \<longrightarrow>
      startPrice currentPrice changeRate = js_mul currentPrice (Fin 0.95)) \<and>
   (\<not> js_lt (js_abs changeRate) (Fin 0.001) \<longrightarrow>
      startPrice currentPrice changeRate = js_div currentPrice (js_add (Fin 1) changeRate)) \<and>
   (\<bar>r\<bar> < 0.001 \<longrightarrow> startPrice (Fin c) (Fin r) = Fin (c * 0.95)) \<and>
   (0.001 \<le> \<bar>r\<bar> \<and> r \<noteq> - 1 \<longrightarrow> startPrice (Fin c) (Fin r) = Fin (c / (1 + r))) \<and>
   (startPrice (Fin c) (Fin r) = Fin p \<longrightarrow>
      price (hd (StockDetailModal_chartData rnd today (Fin c) (Fin r))) =
        Fin (round2 (p + p * (rnd 0 - 0.5) * 0.02)))"
proof -
  have "startPrice (Fin c) (Fin r) = Fin p \<longrightarrow>
      price (hd (StockDetailModal_chartData rnd today (Fin c) (Fin r))) =
        Fin (round2 (p + p * (rnd 0 - 0.5) * 0.02))"
    by (simp add: hd_StockDetailModal_chartData stock_sample_at_def dailyPrice_Fin)
  moreover have "0.001 \<le> \<bar>r\<bar> \<and> r \<noteq> - 1 \<longrightarrow> startPrice (Fin c) (Fin r) = Fin (c / (1 + r))"
  proof
    assume h: "0.001 \<le> \<bar>r\<bar> \<and> r \<noteq> - 1"
    then have "1 + r \<noteq> 0" by auto
    with h show "startPrice (Fin c) (Fin r) = Fin (c / (1 + r))"
      by (simp add: startPrice_def Let_def not_less [symmetric])
  qed
  moreover have "\<bar>r\<bar> < 0.001 \<longrightarrow> startPrice (Fin c) (Fin r) = Fin (c * 0.95)"
    by (simp add: startPrice_def)
  moreover have "js_lt (js_abs changeRate) (Fin 0.001) \<longrightarrow>
      startPrice currentPrice changeRate = js_mul currentPrice (Fin 0.95)"
    by (simp add: startPrice_def)
  moreover have "\<not> js_lt (js_abs changeRate) (Fin 0.001) \<longrightarrow>
      startPrice currentPrice changeRate = js_div currentPrice (js_add (Fin 1) changeRate)"
    by (simp add: startPrice_def)
  ultimately show ?thesis by blast
qed

theorem start_price_rule_witness:
  "startPrice (Fin 100) (Fin 0) = Fin 95 \<and>
   startPrice (Fin 102.5) (Fin 0.025) = Fin 100 \<and>
   price (hd (StockDetailModal_chartData draws_half 0 (Fin 102.5) (Fin 0.025))) = Fin 100"
proof -
  have a: "\<bar>0::real\<bar> < 0.001" by simp
  have b: "(0.001::real) \<le> \<bar>0.025\<bar> \<and> (0.025::real) \<noteq> - 1" by simp
  have s1: "startPrice (Fin 100) (Fin 0) = Fin (100 * 0.95)"
    using start_price_rule [where r = 0 and c = 100] a by blast
  have s2: "startPrice (Fin 102.5) (Fin 0.025) = Fin (102.5 / (1 + 0.025))"
    using start_price_rule [where r = "0.025" and c = "102.5"] b by blast
  have e: "(102.5::real) / (1 + 0.025) = 100" by simp
  have s3: "startPrice (Fin 102.5) (Fin 0.025) = Fin 100" using s2 unfolding e .
  have "price (hd (StockDetailModal_chartData draws_half 0 (Fin 102.5) (Fin 0.025))) =
      Fin (round2 (100 + 100 * (draws_half 0 - 0.5) * 0.02))"
    using start_price_rule [where r = "0.025" and c = "102.5" and p = 100 and rnd = draws_half
        and today = 0] s3 by blast
  moreover have "round2 (100 + 100 * (draws_half 0 - 0.5) * 0.02) = 100"
    by (simp add: draws_half_def round2_def)
  ultimately show ?thesis using s1 s3 by simp
qed

section \<open>Component B stays positive\<close>

lemma startPrice_positive:
  assumes "0 < c" and "- 1 < r"
  shows "\<exists>p. startPrice (Fin c) (Fin r) = Fin p \<and> 0 < p"
proof (cases "\<bar>r\<bar> < 0.001")
  case True
  then have "startPrice (Fin c) (Fin r) = Fin (c * 0.95)" by (simp add: startPrice_def)
  moreover have "0 < c * 0.95" using assms(1) by simp
  ultimately show ?thesis by blast
next
  case False
  have pos: "0 < 1 + r" using assms(2) by simp
  then have "startPrice (Fin c) (Fin r) = Fin (c / (1 + r))"
    using False by (simp add: startPrice_def Let_def)
  moreover have "0 < c / (1 + r)" using assms(1) pos by simp
  ultimately show ?thesis by blast
qed

lemma trend_positive:
  assumes "0 < c" and "0 < p" and "i \<le> 29"
  shows "0 < c * (real i / 29) + p * (1 - real i / 29)"
proof -
  have f: "0 \<le> real i / 29" by simp
  have g: "0 \<le> 1 - real i / 29" using assms(3) by simp
  have "0 \<le> c * (real i / 29)" using assms(1) f by simp
  moreover have "0 \<le> p * (1 - real i / 29)" using assms(2) g by simp
  moreover have "0 < c * (real i / 29) \<or> 0 < p * (1 - real i / 29)"
  proof (cases "i = 0")
    case True
    then show ?thesis using assms(2) by simp
  next
    case False
    then have "0 < real i / 29" by simp
    then show ?thesis using assms(1) by simp
  qed
  ultimately show ?thesis by linarith
qed

lemma noise_bound:
  fixes t u :: real
  assumes "0 < t" and "0 \<le> u" and "u < 1"
  shows "\<bar>t * (u - 0.5) * 0.02\<bar> \<le> t / 100 \<and> 0 < t + t * (u - 0.5) * 0.02"
proof -
  have e: "t * (u - 0.5) * 0.02 = (t / 100) * (2 * u - 1)" by (simp add: field_simps)
  have "\<bar>2 * u - 1\<bar> \<le> 1" using assms(2,3) by simp
  then have "\<bar>(t / 100) * (2 * u - 1)\<bar> \<le> (t / 100) * 1"
    unfolding abs_mult using assms(1) by (intro mult_mono) simp_all
  then have b: "\<bar>t * (u - 0.5) * 0.02\<bar> \<le> t / 100" unfolding e by simp
  then have "- (t / 100) \<le> t * (u - 0.5) * 0.02" by linarith
  then have "0 < t + t * (u - 0.5) * 0.02" using assms(1) by linarith
  with b show ?thesis by blast
qed

text \<open>
  Claim C10. For a positive current price, a change rate above -1 and draws of the random
  source in the range from 0 to 1, the start price and the linear trend are positive, the
  noise is at most 1 percent of the trend, and so every sample is positive before it is
  rounded and non-negative after.
\<close>

theorem monthly_series_positive:
  assumes c: "0 < c" and r: "- 1 < r"
    and rnd: "\<forall>i. 0 \<le> rnd i \<and> rnd i < 1"
    and i: "i < 30"
  shows "\<exists>p v. startPrice (Fin c) (Fin r) = Fin p \<and> 0 < p \<and>
      dailyPrice rnd (Fin c) (Fin p) i = Fin v \<and> 0 < v \<and>
      0 < c * (real i / 29) + p * (1 - real i / 29) \<and>
      (i < 29 \<longrightarrow>
         \<bar>v - (c * (real i / 29) + p * (1 - real i / 29))\<bar> \<le>
           (c * (real i / 29) + p * (1 - real i / 29)) / 100) \<and>
      price (StockDetailModal_chartData rnd today (Fin c) (Fin r) ! i) = Fin (round2 v) \<and>
      0 \<le> round2 v"
proof -
  obtain p where p: "startPrice (Fin c) (Fin r) = Fin p" and pp: "0 < p"
    using startPrice_positive [OF c r] by blast
  let ?t = "c * (real i / 29) + p * (1 - real i / 29)"
  have t: "0 < ?t" using c pp i by (intro trend_positive) simp_all
  have stored: "price (StockDetailModal_chartData rnd today (Fin c) (Fin r) ! i) =
      toFixed2 (dailyPrice rnd (Fin c) (Fin p) i)"
    using i by (simp add: nth_StockDetailModal_chartData stock_sample_at_def p)
  show ?thesis
  proof (cases "i = 29")
    case True
    have d: "dailyPrice rnd (Fin c) (Fin p) i = Fin c" unfolding True by (rule dailyPrice_last)
    have "0 \<le> round2 c" using c by (simp add: round2_nonneg)
    with p pp d c stored True t show ?thesis by auto
  next
    case False
    then have lt: "i < 29" using i by simp
    have u: "0 \<le> rnd i" "rnd i < 1" using rnd by simp_all
    have d: "dailyPrice rnd (Fin c) (Fin p) i = Fin (?t + ?t * (rnd i - 0.5) * 0.02)"
      using lt by (rule dailyPrice_Fin)
    have nb: "\<bar>?t * (rnd i - 0.5) * 0.02\<bar> \<le> ?t / 100 \<and> 0 < ?t + ?t * (rnd i - 0.5) * 0.02"
      using t u by (rule noise_bound)
    then have v: "0 < ?t + ?t * (rnd i - 0.5) * 0.02" by (rule conjunct2)
    have b: "\<bar>(?t + ?t * (rnd i - 0.5) * 0.02) - ?t\<bar> \<le> ?t / 100"
      using nb by simp
    have "0 \<le> round2 (?t + ?t * (rnd i - 0.5) * 0.02)"
      using v by (intro round2_nonneg) simp
    with p pp d v b stored t show ?thesis by auto
  qed
qed

theorem monthly_series_positive_witness:
  "(0::real) < 102.5 \<and> (- 1::real) < 0.025 \<and>
   (\<forall>i. 0 \<le> draws_zero i \<and> draws_zero i < 1) \<and> (0::nat) < 30 \<and>
   (\<exists>p v. startPrice (Fin 102.5) (Fin 0.025) = Fin p \<and> 0 < p \<and>
      dailyPrice draws_zero (Fin 102.5) (Fin p) 0 = Fin v \<and> 0 < v \<and>
      price (StockDetailModal_chartData draws_zero 0 (Fin 102.5) (Fin 0.025) ! 0) = Fin (round2 v) \<and>
      0 \<le> round2 v)"
proof -
  have h1: "(0::real) < 102.5" and h2: "(- 1::real) < 0.025" and h4: "(0::nat) < 30" by simp_all
  have h3: "\<forall>i. 0 \<le> draws_zero i \<and> draws_zero i < 1" by (simp add: draws_zero_def)
  from monthly_series_positive [OF h1 h2 h3 h4, of 0]
  have "\<exists>p v. startPrice (Fin 102.5) (Fin 0.025) = Fin p \<and> 0 < p \<and>
      dailyPrice draws_zero (Fin 102.5) (Fin p) 0 = Fin v \<and> 0 < v \<and>
      price (StockDetailModal_chartData draws_zero 0 (Fin 102.5) (Fin 0.025) ! 0) = Fin (round2 v) \<and>
      0 \<le> round2 v"
    by blast
  with h1 h2 h3 h4 show ?thesis by blast
qed


end
